theory Spec2Isabelle
  imports Complex_Main
begin

section \<open>Staircase threshold controller\<close>

text \<open>
  The staircase module works on JavaScript numbers. Levels and step sizes (decibels
  relative to the reference) are modelled as reals, the two counters and their limits
  as integers. Rounding of IEEE doubles is not part of the model: a level sum is the
  exact sum, and a counter plus one is the next integer, which is what a double gives
  for counts from \<open>- (2 ^ 53)\<close> up to, but not including, \<open>2 ^ 53\<close>. Where a statement
  is about the counting itself, it is made within that range.
\<close>

datatype Direction = Down | Up

datatype Response = Heard | NotHeard

record StaircaseConfig =
  initialLevel :: real
  stepSizeDown :: real
  stepSizeUp :: real
  minLevel :: real
  maxLevel :: real
  maxReversals :: int
  maxAttempts :: int

record StaircaseState =
  currentLevel :: real
  stepSize :: real
  direction :: Direction
  reversals :: int
  attempts :: int
  lastResponse :: "Response option"
  threshold :: "real option"

text \<open>
  \<open>Partial<StaircaseConfig>\<close>: every key may be absent.
\<close>

record PartialConfig =
  initialLevel_opt :: "real option"
  stepSizeDown_opt :: "real option"
  stepSizeUp_opt :: "real option"
  minLevel_opt :: "real option"
  maxLevel_opt :: "real option"
  maxReversals_opt :: "int option"
  maxAttempts_opt :: "int option"

text \<open>
  The object returned by \<open>processResponse\<close>. Its third key is called \<open>threshold\<close> in the
  source; the field is named \<open>resultThreshold\<close> here to keep it apart from the state's.
\<close>

record ProcessResult =
  newState :: StaircaseState
  shouldContinue :: bool
  resultThreshold :: "real option"

definition DEFAULT_CONFIG :: StaircaseConfig where
  "DEFAULT_CONFIG =
     \<lparr>initialLevel = -20, stepSizeDown = 6, stepSizeUp = 3, minLevel = -60,
      maxLevel = 0, maxReversals = 4, maxAttempts = 20\<rparr>"

definition emptyConfig :: PartialConfig where
  "emptyConfig =
     \<lparr>initialLevel_opt = None, stepSizeDown_opt = None, stepSizeUp_opt = None,
      minLevel_opt = None, maxLevel_opt = None, maxReversals_opt = None,
      maxAttempts_opt = None\<rparr>"

text \<open>The object spread \<open>{ ...DEFAULT_CONFIG, ...config }\<close>.\<close>

definition spreadConfig :: "StaircaseConfig \<Rightarrow> PartialConfig \<Rightarrow> StaircaseConfig" where
  "spreadConfig d p =
     \<lparr>initialLevel = (case initialLevel_opt p of None \<Rightarrow> initialLevel d | Some v \<Rightarrow> v),
      stepSizeDown = (case stepSizeDown_opt p of None \<Rightarrow> stepSizeDown d | Some v \<Rightarrow> v),
      stepSizeUp = (case stepSizeUp_opt p of None \<Rightarrow> stepSizeUp d | Some v \<Rightarrow> v),
      minLevel = (case minLevel_opt p of None \<Rightarrow> minLevel d | Some v \<Rightarrow> v),
      maxLevel = (case maxLevel_opt p of None \<Rightarrow> maxLevel d | Some v \<Rightarrow> v),
      maxReversals = (case maxReversals_opt p of None \<Rightarrow> maxReversals d | Some v \<Rightarrow> v),
      maxAttempts = (case maxAttempts_opt p of None \<Rightarrow> maxAttempts d | Some v \<Rightarrow> v)\<rparr>"

definition createStaircase :: "PartialConfig \<Rightarrow> StaircaseState \<times> StaircaseConfig" where
  "createStaircase config =
     (let fullConfig = spreadConfig DEFAULT_CONFIG config in
      (\<lparr>currentLevel = initialLevel fullConfig,
        stepSize = stepSizeDown fullConfig,
        direction = Down,
        reversals = 0,
        attempts = 0,
        lastResponse = None,
        threshold = None\<rparr>,
       fullConfig))"

definition processResponse ::
  "StaircaseState \<Rightarrow> StaircaseConfig \<Rightarrow> Response \<Rightarrow> ProcessResult" where
  "processResponse state config response =
     (let counted = state\<lparr>attempts := attempts state + 1, lastResponse := Some response\<rparr> in
      if maxAttempts config \<le> attempts counted then
        (let final = counted\<lparr>threshold := Some (currentLevel counted)\<rparr> in
         \<lparr>newState = final, shouldContinue = False, resultThreshold = threshold final\<rparr>)
      else
        (let previousDirection = direction counted;
             moved =
               (case response of
                  Heard \<Rightarrow>
                    counted\<lparr>direction := Down,
                      currentLevel :=
                        max (minLevel config) (currentLevel counted - stepSizeDown config),
                      stepSize := stepSizeDown config\<rparr>
                | NotHeard \<Rightarrow>
                    counted\<lparr>direction := Up,
                      currentLevel :=
                        min (maxLevel config) (currentLevel counted + stepSizeUp config),
                      stepSize := stepSizeUp config\<rparr>);
             checked =
               (if previousDirection \<noteq> direction moved \<and> lastResponse state \<noteq> None
                then moved\<lparr>reversals := reversals moved + 1\<rparr>
                else moved)
         in if maxReversals config \<le> reversals checked then
              (let final = checked\<lparr>threshold := Some (currentLevel checked)\<rparr> in
               \<lparr>newState = final, shouldContinue = False,
                resultThreshold = threshold final\<rparr>)
            else \<lparr>newState = checked, shouldContinue = True, resultThreshold = None\<rparr>))"

definition getCurrentLevel :: "StaircaseState \<Rightarrow> real" where
  "getCurrentLevel state = currentLevel state"

subsection \<open>Sequences of calls\<close>

text \<open>
  The results of feeding a list of responses, one call after the other, each call on the
  state the previous one returned.
\<close>

fun responseTrace ::
  "StaircaseConfig \<Rightarrow> StaircaseState \<Rightarrow> Response list \<Rightarrow> ProcessResult list" where
  "responseTrace config state [] = []"
| "responseTrace config state (r # rs) =
     (let res = processResponse state config r
      in res # responseTrace config (newState res) rs)"

text \<open>The state held after the whole list has been fed.\<close>

fun advanceAll ::
  "StaircaseConfig \<Rightarrow> StaircaseState \<Rightarrow> Response list \<Rightarrow> StaircaseState" where
  "advanceAll config state [] = state"
| "advanceAll config state (r # rs) =
     advanceAll config (newState (processResponse state config r)) rs"

text \<open>
  The run as the page drives it: responses are fed while the result says
  \<open>shouldContinue\<close>; the number of the call that stopped the run, if the list reached it.
\<close>

fun callsUntilStop ::
  "StaircaseConfig \<Rightarrow> StaircaseState \<Rightarrow> Response list \<Rightarrow> nat option" where
  "callsUntilStop config state [] = None"
| "callsUntilStop config state (r # rs) =
     (let res = processResponse state config r in
      if shouldContinue res
      then map_option Suc (callsUntilStop config (newState res) rs)
      else Some 1)"

text \<open>The configuration invariant of the data model.\<close>

definition validConfig :: "StaircaseConfig \<Rightarrow> bool" where
  "validConfig config \<longleftrightarrow>
     minLevel config \<le> initialLevel config \<and> initialLevel config \<le> maxLevel config \<and>
     0 < stepSizeDown config \<and> 0 < stepSizeUp config"

definition otherResponse :: "Response \<Rightarrow> Response" where
  "otherResponse r = (case r of Heard \<Rightarrow> NotHeard | NotHeard \<Rightarrow> Heard)"

text \<open>\<open>n\<close> responses that alternate, the first being \<open>r\<close>.\<close>

definition alternating :: "Response \<Rightarrow> nat \<Rightarrow> Response list" where
  "alternating r n = map (\<lambda>i. if even i then r else otherResponse r) [0..<n]"

text \<open>The direction a response asks for.\<close>

definition directionOf :: "Response \<Rightarrow> Direction" where
  "directionOf r = (case r of Heard \<Rightarrow> Down | NotHeard \<Rightarrow> Up)"

text \<open>The clamped level a response leads to from level \<open>l\<close>.\<close>

definition levelAfter :: "StaircaseConfig \<Rightarrow> real \<Rightarrow> Response \<Rightarrow> real" where
  "levelAfter config l r =
     (case r of
        Heard \<Rightarrow> max (minLevel config) (l - stepSizeDown config)
      | NotHeard \<Rightarrow> min (maxLevel config) (l + stepSizeUp config))"

text \<open>Feeding the same response again and again: the invariant that keeps the count at 0.\<close>

definition quiet :: "StaircaseConfig \<Rightarrow> Response \<Rightarrow> StaircaseState \<Rightarrow> bool" where
  "quiet config r state \<longleftrightarrow>
     reversals state = 0 \<and>
     (lastResponse state = None \<or> direction state = directionOf r \<or>
      maxAttempts config \<le> attempts state)"

section \<open>Tone playback engine\<close>

subsection \<open>Level to gain\<close>

text \<open>
  \<open>playTone\<close> turns the relative level in dB into a linear gain with
  \<open>referenceGain * Math.pow(10, level / 20)\<close>. The base is positive, so the power is
  \<open>powr\<close> on the reals.
\<close>

definition referenceGain :: real where
  "referenceGain = 0.3"

definition linearGain :: "real \<Rightarrow> real" where
  "linearGain level = referenceGain * 10 powr (level / 20)"

subsection \<open>The audio nodes the engine refers to\<close>

text \<open>
  The engine keeps references to Web Audio nodes; the nodes themselves belong to the
  browser. A reference is a number, and the graph maps each reference to what the browser
  holds for it: for an oscillator whether it is sounding, for a gain node the schedule of
  its \<open>gain\<close> parameter.

  The node methods behave as the Web Audio interface describes them. \<open>stop()\<close> raises
  \<open>InvalidStateError\<close> on an oscillator that was never started; on one that has already
  finished it raises in some browsers and does nothing in others, which \<open>strictStop\<close>
  selects. \<open>cancelScheduledValues(t)\<close> removes the events scheduled at \<open>t\<close> or later and
  \<open>setValueAtTime(v, t)\<close> schedules a new one; both raise \<open>RangeError\<close> for a negative
  time. Reading \<open>currentTime\<close> of a missing context raises \<open>TypeError\<close>.
\<close>

type_synonym nodeId = nat

datatype DOMException = InvalidStateError | RangeError | TypeError

datatype OscillatorStatus = Unstarted | Playing | Finished

datatype ParamEvent = SetValue real | LinearRamp real

record AudioParam =
  paramValue :: real
  events :: "(real \<times> ParamEvent) list"

record AudioGraph =
  oscillators :: "nodeId \<Rightarrow> OscillatorStatus"
  gains :: "nodeId \<Rightarrow> AudioParam"
  strictStop :: bool

record AudioContext =
  currentTime :: real

record AudioEngine =
  audioContext :: "AudioContext option"
  activeOscillators :: "nodeId list"
  activeGainNodes :: "nodeId list"
  masterGain :: "nodeId option"
  isInitialized :: bool

text \<open>
  A statement either completes or throws; in both cases it leaves a graph behind.
\<close>

datatype Completion = Normal | Thrown DOMException

type_synonym effect = "AudioGraph \<Rightarrow> Completion \<times> AudioGraph"

definition oscillatorStop :: "nodeId \<Rightarrow> effect" where
  "oscillatorStop osc g =
     (case oscillators g osc of
        Unstarted \<Rightarrow> (Thrown InvalidStateError, g)
      | Playing \<Rightarrow> (Normal, g\<lparr>oscillators := (oscillators g)(osc := Finished)\<rparr>)
      | Finished \<Rightarrow> (if strictStop g then (Thrown InvalidStateError, g) else (Normal, g)))"

definition cancelScheduledValues :: "nodeId \<Rightarrow> real \<Rightarrow> effect" where
  "cancelScheduledValues gain cancelTime g =
     (if cancelTime < 0 then (Thrown RangeError, g)
      else (Normal,
        g\<lparr>gains := (gains g)(gain := (gains g gain)
            \<lparr>events := filter (\<lambda>e. fst e < cancelTime) (events (gains g gain))\<rparr>)\<rparr>))"

definition setValueAtTime :: "nodeId \<Rightarrow> real \<Rightarrow> real \<Rightarrow> effect" where
  "setValueAtTime gain v startTime g =
     (if startTime < 0 then (Thrown RangeError, g)
      else (Normal,
        g\<lparr>gains := (gains g)(gain := (gains g gain)
            \<lparr>events := events (gains g gain) @ [(startTime, SetValue v)]\<rparr>)\<rparr>))"

text \<open>
  A call whose argument is \<open>this.audioContext!.currentTime\<close>: the argument is read first,
  and reading it throws when there is no context.
\<close>

definition withCurrentTime :: "AudioContext option \<Rightarrow> (real \<Rightarrow> effect) \<Rightarrow> effect" where
  "withCurrentTime ctx call g =
     (case ctx of
        None \<Rightarrow> (Thrown TypeError, g)
      | Some c \<Rightarrow> call (currentTime c) g)"

text \<open>Two statements in sequence: the second runs only if the first completes.\<close>

definition andThen :: "effect \<Rightarrow> effect \<Rightarrow> effect" where
  "andThen first second g =
     (case first g of
        (Normal, g') \<Rightarrow> second g'
      | (Thrown e, g') \<Rightarrow> (Thrown e, g'))"

text \<open>\<open>try { body } catch (e) { }\<close> with an empty handler.\<close>

definition tryCatchIgnore :: "effect \<Rightarrow> effect" where
  "tryCatchIgnore body g =
     (case body g of
        (Normal, g') \<Rightarrow> (Normal, g')
      | (Thrown e, g') \<Rightarrow> (Normal, g'))"

text \<open>\<open>Array.prototype.forEach\<close>: an exception leaving the callback ends the loop.\<close>

fun forEach :: "(nodeId \<Rightarrow> effect) \<Rightarrow> nodeId list \<Rightarrow> effect" where
  "forEach callback [] g = (Normal, g)"
| "forEach callback (x # xs) g =
     (case callback x g of
        (Normal, g') \<Rightarrow> forEach callback xs g'
      | (Thrown e, g') \<Rightarrow> (Thrown e, g'))"

subsection \<open>stopAll\<close>

text \<open>The two arrow functions handed to \<open>forEach\<close>.\<close>

definition stopOscillator :: "nodeId \<Rightarrow> effect" where
  "stopOscillator osc = tryCatchIgnore (oscillatorStop osc)"

definition silenceGain :: "AudioContext option \<Rightarrow> nodeId \<Rightarrow> effect" where
  "silenceGain ctx gain =
     tryCatchIgnore
       (andThen (withCurrentTime ctx (cancelScheduledValues gain))
                (withCurrentTime ctx (setValueAtTime gain 0)))"

text \<open>
  \<open>stopAll\<close> returns how it completed, the engine's fields and the graph afterwards. The
  two lists are emptied only when both loops have completed.
\<close>

definition stopAll ::
  "AudioEngine \<Rightarrow> AudioGraph \<Rightarrow> Completion \<times> AudioEngine \<times> AudioGraph" where
  "stopAll this g =
     (case forEach stopOscillator (activeOscillators this) g of
        (Thrown e, g1) \<Rightarrow> (Thrown e, this, g1)
      | (Normal, g1) \<Rightarrow>
          (case forEach (silenceGain (audioContext this)) (activeGainNodes this) g1 of
             (Thrown e, g2) \<Rightarrow> (Thrown e, this, g2)
           | (Normal, g2) \<Rightarrow>
               (Normal, this\<lparr>activeOscillators := [], activeGainNodes := []\<rparr>, g2)))"

text \<open>
  What the two statements of the gain callback leave of a parameter's schedule at time
  \<open>t\<close>: the events before \<open>t\<close>, then the value 0 set at \<open>t\<close>.
\<close>

definition silenced :: "real \<Rightarrow> AudioParam \<Rightarrow> AudioParam" where
  "silenced t p = p\<lparr>events := filter (\<lambda>e. fst e < t) (events p) @ [(t, SetValue 0)]\<rparr>"

subsection \<open>Two engines to run it on\<close>

text \<open>
  An engine at time 2 with two tones: oscillator 1 still playing, oscillator 2 already
  finished in a browser that throws on a second stop, their envelopes on the gain nodes
  11 and 12. And an engine with no tone at all.
\<close>

definition twoTones :: AudioEngine where
  "twoTones =
     \<lparr>audioContext = Some \<lparr>currentTime = 2\<rparr>, activeOscillators = [1, 2],
      activeGainNodes = [11, 12], masterGain = Some 0, isInitialized = True\<rparr>"

definition twoTonesGraph :: AudioGraph where
  "twoTonesGraph =
     \<lparr>oscillators = (\<lambda>n. Unstarted)(1 := Playing, 2 := Finished),
      gains = (\<lambda>n. \<lparr>paramValue = 0, events = []\<rparr>)
        (11 := \<lparr>paramValue = 0,
                events = [(1.5, SetValue 0), (1.51, LinearRamp 1), (2.45, SetValue 1),
                          (2.5, LinearRamp 0)]\<rparr>,
         12 := \<lparr>paramValue = 0,
                events = [(0.5, SetValue 0), (0.51, LinearRamp 1), (1.45, SetValue 1),
                          (1.5, LinearRamp 0)]\<rparr>),
      strictStop = True\<rparr>"

definition noTones :: AudioEngine where
  "noTones =
     \<lparr>audioContext = None, activeOscillators = [], activeGainNodes = [],
      masterGain = None, isInitialized = False\<rparr>"

section \<open>Properties of the staircase controller\<close>

subsection \<open>The two paths of one call\<close>

lemma processResponse_stop:
  assumes "maxAttempts config \<le> attempts state + 1"
  shows "processResponse state config response =
     \<lparr>newState = state\<lparr>attempts := attempts state + 1, lastResponse := Some response,
         threshold := Some (currentLevel state)\<rparr>,
      shouldContinue = False, resultThreshold = Some (currentLevel state)\<rparr>"
  using assms by (simp add: processResponse_def Let_def)

lemma newState_go:
  assumes "attempts state + 1 < maxAttempts config"
  shows "attempts (newState (processResponse state config response)) = attempts state + 1"
    and "lastResponse (newState (processResponse state config response)) = Some response"
    and "direction (newState (processResponse state config response)) = directionOf response"
    and "currentLevel (newState (processResponse state config response)) =
           levelAfter config (currentLevel state) response"
    and "reversals (newState (processResponse state config response)) =
           reversals state +
           (if directionOf response \<noteq> direction state \<and> lastResponse state \<noteq> None
            then 1 else 0)"
  using assms
  by (cases response; simp add: processResponse_def Let_def directionOf_def levelAfter_def)+

lemma result_go:
  assumes "attempts state + 1 < maxAttempts config"
  shows "shouldContinue (processResponse state config response) \<longleftrightarrow>
           reversals (newState (processResponse state config response)) < maxReversals config"
    and "resultThreshold (processResponse state config response) =
           (if maxReversals config \<le> reversals (newState (processResponse state config response))
            then Some (currentLevel (newState (processResponse state config response)))
            else None)"
  using assms
  by (cases response; auto simp add: processResponse_def Let_def)+

lemma attempts_step:
  "attempts (newState (processResponse state config response)) = attempts state + 1"
  by (cases response; simp add: processResponse_def Let_def)

lemma default_start:
  "createStaircase emptyConfig =
     (\<lparr>currentLevel = -20, stepSize = 6, direction = Down, reversals = 0, attempts = 0,
       lastResponse = None, threshold = None\<rparr>, DEFAULT_CONFIG)"
  by (simp add: createStaircase_def spreadConfig_def emptyConfig_def DEFAULT_CONFIG_def)

subsection \<open>Level bounds\<close>

lemma level_step_bounded:
  assumes "validConfig config"
    and "minLevel config \<le> currentLevel state" and "currentLevel state \<le> maxLevel config"
  shows "minLevel config \<le> currentLevel (newState (processResponse state config response)) \<and>
         currentLevel (newState (processResponse state config response)) \<le> maxLevel config"
proof (cases "maxAttempts config \<le> attempts state + 1")
  case True
  then show ?thesis using assms(2,3) by (simp add: processResponse_stop)
next
  case False
  then have go: "attempts state + 1 < maxAttempts config" by simp
  from assms(1) have "minLevel config \<le> maxLevel config"
    and "0 < stepSizeDown config" and "0 < stepSizeUp config"
    by (simp_all add: validConfig_def)
  then show ?thesis using assms(2,3)
    by (cases response) (simp_all add: newState_go(4)[OF go] levelAfter_def)
qed

lemma trace_levels_bounded:
  assumes "validConfig config"
  shows "minLevel config \<le> currentLevel state \<Longrightarrow> currentLevel state \<le> maxLevel config \<Longrightarrow>
         res \<in> set (responseTrace config state rs) \<Longrightarrow>
         minLevel config \<le> currentLevel (newState res) \<and>
         currentLevel (newState res) \<le> maxLevel config"
proof (induction rs arbitrary: state)
  case Nil
  then show ?case by simp
next
  case (Cons r rs)
  let ?first = "processResponse state config r"
  have step: "minLevel config \<le> currentLevel (newState ?first) \<and>
              currentLevel (newState ?first) \<le> maxLevel config"
    using level_step_bounded[OF assms Cons.prems(1,2)] .
  from Cons.prems(3)
  consider "res = ?first" | "res \<in> set (responseTrace config (newState ?first) rs)"
    by (auto simp add: Let_def)
  then show ?case
  proof cases
    case 1
    then show ?thesis using step by simp
  next
    case 2
    then show ?thesis using Cons.IH step by blast
  qed
qed

text \<open>
  C1. Start from the state and configuration that \<open>createStaircase\<close> returns. If the
  configuration is valid (\<open>minLevel \<le> initialLevel \<le> maxLevel\<close>, both steps positive), then
  for every list of responses, the state returned by each call of \<open>processResponse\<close> in the
  sequence has its \<open>currentLevel\<close> between \<open>minLevel\<close> and \<open>maxLevel\<close>.
\<close>

theorem currentLevel_within_bounds:
  assumes "createStaircase partial = (initial, config)"
    and "validConfig config"
    and "res \<in> set (responseTrace config initial responses)"
  shows "minLevel config \<le> currentLevel (newState res) \<and>
         currentLevel (newState res) \<le> maxLevel config"
proof -
  from assms(1) have "currentLevel initial = initialLevel config"
    by (auto simp add: createStaircase_def Let_def)
  with assms(2) have "minLevel config \<le> currentLevel initial"
    and "currentLevel initial \<le> maxLevel config"
    by (simp_all add: validConfig_def)
  then show ?thesis using trace_levels_bounded[OF assms(2) _ _ assms(3)] by simp
qed

theorem currentLevel_within_bounds_witness:
  "createStaircase emptyConfig =
     (\<lparr>currentLevel = -20, stepSize = 6, direction = Down, reversals = 0, attempts = 0,
       lastResponse = None, threshold = None\<rparr>, DEFAULT_CONFIG) \<and>
   validConfig DEFAULT_CONFIG \<and>
   processResponse \<lparr>currentLevel = -20, stepSize = 6, direction = Down, reversals = 0,
       attempts = 0, lastResponse = None, threshold = None\<rparr> DEFAULT_CONFIG NotHeard
     \<in> set (responseTrace DEFAULT_CONFIG
          \<lparr>currentLevel = -20, stepSize = 6, direction = Down, reversals = 0, attempts = 0,
            lastResponse = None, threshold = None\<rparr> [NotHeard, Heard]) \<and>
   currentLevel (newState (processResponse \<lparr>currentLevel = -20, stepSize = 6,
       direction = Down, reversals = 0, attempts = 0, lastResponse = None,
       threshold = None\<rparr> DEFAULT_CONFIG NotHeard)) = -17 \<and>
   minLevel DEFAULT_CONFIG \<le> -17 \<and> -17 \<le> maxLevel DEFAULT_CONFIG"
proof -
  let ?s = "\<lparr>currentLevel = -20, stepSize = 6, direction = Down, reversals = 0, attempts = 0,
       lastResponse = None, threshold = None\<rparr>"
  have h1: "createStaircase emptyConfig = (?s, DEFAULT_CONFIG)" by (rule default_start)
  have h2: "validConfig DEFAULT_CONFIG" by (simp add: validConfig_def DEFAULT_CONFIG_def)
  have h3: "processResponse ?s DEFAULT_CONFIG NotHeard
              \<in> set (responseTrace DEFAULT_CONFIG ?s [NotHeard, Heard])"
    by (simp add: Let_def)
  have v: "currentLevel (newState (processResponse ?s DEFAULT_CONFIG NotHeard)) = -17"
    by (simp add: processResponse_def DEFAULT_CONFIG_def Let_def)
  from currentLevel_within_bounds[OF h1 h2 h3] h1 h2 h3 v show ?thesis by simp
qed

text \<open>
  C2. Whenever the attempt count after the increment reaches \<open>maxAttempts\<close>, the call
  returns \<open>shouldContinue = false\<close> and the threshold it reports, and stores in the new
  state, is the level of the input state: the level that was just presented. No level
  update happens on this path, the returned state still holds that level.
\<close>

theorem maxAttempts_checked_first:
  assumes "maxAttempts config \<le> attempts state + 1"
  shows "shouldContinue (processResponse state config response) = False \<and>
         resultThreshold (processResponse state config response) = Some (currentLevel state) \<and>
         threshold (newState (processResponse state config response)) =
           Some (currentLevel state) \<and>
         currentLevel (newState (processResponse state config response)) = currentLevel state"
  using assms by (simp add: processResponse_stop)

theorem maxAttempts_checked_first_witness:
  "maxAttempts DEFAULT_CONFIG \<le>
     attempts \<lparr>currentLevel = -2, stepSize = 3, direction = Up, reversals = 0, attempts = 19,
       lastResponse = Some NotHeard, threshold = None\<rparr> + 1 \<and>
   shouldContinue (processResponse \<lparr>currentLevel = -2, stepSize = 3, direction = Up,
       reversals = 0, attempts = 19, lastResponse = Some NotHeard, threshold = None\<rparr>
       DEFAULT_CONFIG NotHeard) = False \<and>
   resultThreshold (processResponse \<lparr>currentLevel = -2, stepSize = 3, direction = Up,
       reversals = 0, attempts = 19, lastResponse = Some NotHeard, threshold = None\<rparr>
       DEFAULT_CONFIG NotHeard) = Some (-2)"
proof -
  let ?s = "\<lparr>currentLevel = -2, stepSize = 3, direction = Up, reversals = 0, attempts = 19,
       lastResponse = Some NotHeard, threshold = None\<rparr>"
  have h: "maxAttempts DEFAULT_CONFIG \<le> attempts ?s + 1" by (simp add: DEFAULT_CONFIG_def)
  from maxAttempts_checked_first[OF h, of NotHeard] h show ?thesis by simp
qed


text \<open>
  C4. On a call that the \<open>maxAttempts\<close> check did not end, the new level is the clamped
  step from the old one. If the reversal count of the new state has reached
  \<open>maxReversals\<close>, the call returns \<open>shouldContinue = false\<close> and reports that new level,
  the level of the terminating step, as threshold; otherwise it returns
  \<open>shouldContinue = true\<close> and no threshold.
\<close>

theorem maxReversals_check:
  assumes "attempts state + 1 < maxAttempts config"
  shows "currentLevel (newState (processResponse state config response)) =
           (case response of
              Heard \<Rightarrow> max (minLevel config) (currentLevel state - stepSizeDown config)
            | NotHeard \<Rightarrow> min (maxLevel config) (currentLevel state + stepSizeUp config)) \<and>
         (if maxReversals config \<le> reversals (newState (processResponse state config response))
          then shouldContinue (processResponse state config response) = False \<and>
               resultThreshold (processResponse state config response) =
                 Some (currentLevel (newState (processResponse state config response)))
          else shouldContinue (processResponse state config response) = True \<and>
               resultThreshold (processResponse state config response) = None)"
  using assms
  by (simp add: newState_go(4) result_go levelAfter_def)

theorem maxReversals_check_witness:
  "attempts \<lparr>currentLevel = -20, stepSize = 6, direction = Down, reversals = 3, attempts = 4,
       lastResponse = Some Heard, threshold = None\<rparr> + 1 < maxAttempts DEFAULT_CONFIG \<and>
   currentLevel (newState (processResponse \<lparr>currentLevel = -20, stepSize = 6,
       direction = Down, reversals = 3, attempts = 4, lastResponse = Some Heard,
       threshold = None\<rparr> DEFAULT_CONFIG NotHeard)) = -17 \<and>
   shouldContinue (processResponse \<lparr>currentLevel = -20, stepSize = 6, direction = Down,
       reversals = 3, attempts = 4, lastResponse = Some Heard, threshold = None\<rparr>
       DEFAULT_CONFIG NotHeard) = False \<and>
   resultThreshold (processResponse \<lparr>currentLevel = -20, stepSize = 6, direction = Down,
       reversals = 3, attempts = 4, lastResponse = Some Heard, threshold = None\<rparr>
       DEFAULT_CONFIG NotHeard) = Some (-17)"
proof -
  let ?s = "\<lparr>currentLevel = -20, stepSize = 6, direction = Down, reversals = 3, attempts = 4,
       lastResponse = Some Heard, threshold = None\<rparr>"
  have h: "attempts ?s + 1 < maxAttempts DEFAULT_CONFIG" by (simp add: DEFAULT_CONFIG_def)
  have r: "reversals (newState (processResponse ?s DEFAULT_CONFIG NotHeard)) = 4"
    by (simp add: newState_go(5)[OF h] directionOf_def)
  have m: "maxReversals DEFAULT_CONFIG = 4" "maxLevel DEFAULT_CONFIG = 0"
    "stepSizeUp DEFAULT_CONFIG = 3"
    by (simp_all add: DEFAULT_CONFIG_def)
  from maxReversals_check[OF h, of NotHeard] h r m show ?thesis by simp
qed

text \<open>
  C9. For an input state whose threshold is still unset: \<open>shouldContinue\<close> is false exactly
  when the returned threshold is set, and the returned threshold is the threshold field
  of the returned state.
\<close>

theorem threshold_iff_stopped:
  assumes "threshold state = None"
  shows "(shouldContinue (processResponse state config response) = False \<longleftrightarrow>
            resultThreshold (processResponse state config response) \<noteq> None) \<and>
         resultThreshold (processResponse state config response) =
           threshold (newState (processResponse state config response))"
  using assms
  by (cases response; simp add: processResponse_def Let_def)

theorem threshold_iff_stopped_witness:
  "threshold (fst (createStaircase emptyConfig)) = None \<and>
   shouldContinue (processResponse (fst (createStaircase emptyConfig)) DEFAULT_CONFIG Heard)
     = True \<and>
   resultThreshold (processResponse (fst (createStaircase emptyConfig)) DEFAULT_CONFIG Heard)
     = None \<and>
   threshold (newState (processResponse (fst (createStaircase emptyConfig)) DEFAULT_CONFIG
     Heard)) = None"
proof -
  have h: "threshold (fst (createStaircase emptyConfig)) = None"
    by (simp add: default_start)
  have c: "shouldContinue (processResponse (fst (createStaircase emptyConfig)) DEFAULT_CONFIG
      Heard) = True"
    by (simp add: default_start processResponse_def DEFAULT_CONFIG_def Let_def)
  note t = threshold_iff_stopped[OF h, of DEFAULT_CONFIG Heard]
  from t c have r: "resultThreshold (processResponse (fst (createStaircase emptyConfig))
      DEFAULT_CONFIG Heard) = None"
    by simp
  from t r have "threshold (newState (processResponse (fst (createStaircase emptyConfig))
      DEFAULT_CONFIG Heard)) = None"
    by metis
  with h c r show ?thesis by simp
qed

text \<open>
  C10. When the call ends through the \<open>maxAttempts\<close> branch, the returned state is the
  input state with \<open>attempts\<close>, \<open>lastResponse\<close> and \<open>threshold\<close> rewritten and nothing else:
  \<open>currentLevel\<close>, \<open>direction\<close>, \<open>reversals\<close> and \<open>stepSize\<close> are those of the input.
\<close>

theorem maxAttempts_branch_frame:
  assumes "maxAttempts config \<le> attempts state + 1"
  shows "newState (processResponse state config response) =
           state\<lparr>attempts := attempts state + 1, lastResponse := Some response,
             threshold := Some (currentLevel state)\<rparr> \<and>
         currentLevel (newState (processResponse state config response)) = currentLevel state \<and>
         direction (newState (processResponse state config response)) = direction state \<and>
         reversals (newState (processResponse state config response)) = reversals state \<and>
         stepSize (newState (processResponse state config response)) = stepSize state"
  using assms by (simp add: processResponse_stop)

theorem maxAttempts_branch_frame_witness:
  "maxAttempts DEFAULT_CONFIG \<le>
     attempts \<lparr>currentLevel = -8, stepSize = 6, direction = Down, reversals = 2, attempts = 19,
       lastResponse = Some Heard, threshold = None\<rparr> + 1 \<and>
   newState (processResponse \<lparr>currentLevel = -8, stepSize = 6, direction = Down,
       reversals = 2, attempts = 19, lastResponse = Some Heard, threshold = None\<rparr>
       DEFAULT_CONFIG NotHeard) =
     \<lparr>currentLevel = -8, stepSize = 6, direction = Down, reversals = 2, attempts = 20,
       lastResponse = Some NotHeard, threshold = Some (-8)\<rparr>"
proof -
  let ?s = "\<lparr>currentLevel = -8, stepSize = 6, direction = Down, reversals = 2, attempts = 19,
       lastResponse = Some Heard, threshold = None\<rparr>"
  have h: "maxAttempts DEFAULT_CONFIG \<le> attempts ?s + 1" by (simp add: DEFAULT_CONFIG_def)
  from maxAttempts_branch_frame[OF h, of NotHeard] h show ?thesis by simp
qed

subsection \<open>Attempts and the end of a run\<close>

lemma advanceAll_append:
  "advanceAll config state (xs @ ys) = advanceAll config (advanceAll config state xs) ys"
  by (induction xs arbitrary: state) simp_all

lemma attempts_advanceAll:
  "attempts (advanceAll config state rs) = attempts state + int (length rs)"
  by (induction rs arbitrary: state) (simp_all add: attempts_step)


subsection \<open>Reversals\<close>

lemma alternating_Suc:
  "alternating r (Suc n) = alternating r n @ [if even n then r else otherResponse r]"
  by (simp add: alternating_def)

lemma directionOf_other: "directionOf (otherResponse r) \<noteq> directionOf r"
  by (cases r) (simp_all add: directionOf_def otherResponse_def)

lemma reversals_stop:
  assumes "maxAttempts config \<le> attempts state + 1"
  shows "reversals (newState (processResponse state config response)) = reversals state"
  using assms by (simp add: processResponse_stop)

lemma quiet_step:
  assumes "quiet config r state"
  shows "quiet config r (newState (processResponse state config r))"
proof (cases "maxAttempts config \<le> attempts state + 1")
  case True
  then show ?thesis using assms by (simp add: processResponse_stop quiet_def)
next
  case False
  then have go: "attempts state + 1 < maxAttempts config" by simp
  then have "\<not> maxAttempts config \<le> attempts state" by simp
  with assms have "reversals state = 0"
    and "lastResponse state = None \<or> direction state = directionOf r"
    by (auto simp add: quiet_def)
  then show ?thesis
    by (auto simp add: quiet_def newState_go(3)[OF go] newState_go(5)[OF go])
qed

lemma quiet_replicate:
  "quiet config r state \<Longrightarrow> quiet config r (advanceAll config state (replicate n r))"
  by (induction n arbitrary: state) (simp_all add: quiet_step)

lemma identical_no_reversal:
  assumes "createStaircase partial = (initial, cfg)"
  shows "reversals (advanceAll cfg initial (replicate n r)) = 0"
proof -
  from assms have "quiet cfg r initial"
    by (auto simp add: createStaircase_def Let_def quiet_def)
  then have "quiet cfg r (advanceAll cfg initial (replicate n r))" by (rule quiet_replicate)
  then show ?thesis by (simp add: quiet_def)
qed

lemma alternating_reversal:
  assumes "createStaircase partial = (initial, cfg)"
    and "1 \<le> n" and "int n + 1 < maxAttempts cfg"
  shows "reversals (advanceAll cfg initial (alternating r (Suc n))) =
         reversals (advanceAll cfg initial (alternating r n)) + 1"
proof -
  from assms(2) obtain m where n: "n = Suc m" by (cases n) auto
  let ?a = "\<lambda>i. if even i then r else otherResponse r"
  let ?before = "advanceAll cfg initial (alternating r m)"
  let ?mid = "advanceAll cfg initial (alternating r n)"
  from assms(1) have z: "attempts initial = 0" by (auto simp add: createStaircase_def Let_def)
  have am: "attempts ?before = int m"
    by (simp add: attempts_advanceAll z alternating_def)
  have an: "attempts ?mid = int n"
    by (simp add: attempts_advanceAll z alternating_def)
  have mid: "?mid = newState (processResponse ?before cfg (?a m))"
    by (simp add: n alternating_Suc advanceAll_append)
  have go1: "attempts ?before + 1 < maxAttempts cfg" using am assms(3) n by simp
  have go2: "attempts ?mid + 1 < maxAttempts cfg" using an assms(3) by simp
  have d: "direction ?mid = directionOf (?a m)"
    unfolding mid by (rule newState_go(3)[OF go1])
  have l: "lastResponse ?mid = Some (?a m)"
    unfolding mid by (rule newState_go(2)[OF go1])
  have diff: "directionOf (?a n) \<noteq> directionOf (?a m)"
    using directionOf_other[of r] by (auto simp add: n)
  have "advanceAll cfg initial (alternating r (Suc n)) =
          newState (processResponse ?mid cfg (?a n))"
    by (simp add: alternating_Suc[of r n] advanceAll_append)
  then show ?thesis
    using newState_go(5)[OF go2, of "?a n"] d l diff by simp
qed

lemma boundary_reversal_max:
  assumes "attempts state + 1 < maxAttempts config"
    and "currentLevel state = maxLevel config" and "0 \<le> stepSizeUp config"
    and "direction state = Down" and "lastResponse state \<noteq> None"
  shows "currentLevel (newState (processResponse state config NotHeard)) = currentLevel state \<and>
         reversals (newState (processResponse state config NotHeard)) = reversals state + 1"
  using assms
  by (simp add: newState_go(4)[OF assms(1)] newState_go(5)[OF assms(1)] levelAfter_def
      directionOf_def)

lemma boundary_reversal_min:
  assumes "attempts state + 1 < maxAttempts config"
    and "currentLevel state = minLevel config" and "0 \<le> stepSizeDown config"
    and "direction state = Up" and "lastResponse state \<noteq> None"
  shows "currentLevel (newState (processResponse state config Heard)) = currentLevel state \<and>
         reversals (newState (processResponse state config Heard)) = reversals state + 1"
  using assms
  by (simp add: newState_go(4)[OF assms(1)] newState_go(5)[OF assms(1)] levelAfter_def
      directionOf_def)

text \<open>
  C3, as the code has it. On a call that the \<open>maxAttempts\<close> check does not end, the
  direction becomes the one the response asks for, and the reversal count goes up by one
  exactly when that direction differs from the one held before the call and the input
  state has a last response; a call ended by the \<open>maxAttempts\<close> check leaves direction and
  count as they were. From a fresh state, identical responses never raise the count, and
  alternating responses raise it on every call after the first that the \<open>maxAttempts\<close>
  check does not end. At a level boundary a reversal is counted although the clamped level
  stays where it was.
\<close>

theorem reversal_counting:
  "(attempts state1 + 1 < maxAttempts config1 \<longrightarrow>
      direction (newState (processResponse state1 config1 response1)) =
        (case response1 of Heard \<Rightarrow> Down | NotHeard \<Rightarrow> Up) \<and>
      reversals (newState (processResponse state1 config1 response1)) =
        reversals state1 +
        (if direction (newState (processResponse state1 config1 response1)) \<noteq> direction state1
            \<and> lastResponse state1 \<noteq> None
         then 1 else 0)) \<and>
   (maxAttempts config2 \<le> attempts state2 + 1 \<longrightarrow>
      direction (newState (processResponse state2 config2 response2)) = direction state2 \<and>
      reversals (newState (processResponse state2 config2 response2)) = reversals state2) \<and>
   (createStaircase partial = (initial, cfg) \<longrightarrow>
      reversals (advanceAll cfg initial (replicate n r)) = 0) \<and>
   (createStaircase partial = (initial, cfg) \<and> 1 \<le> m \<and> int m + 1 < maxAttempts cfg \<longrightarrow>
      reversals (advanceAll cfg initial (alternating r (Suc m))) =
        reversals (advanceAll cfg initial (alternating r m)) + 1) \<and>
   (attempts atMax + 1 < maxAttempts cfgMax \<and> currentLevel atMax = maxLevel cfgMax \<and>
    0 \<le> stepSizeUp cfgMax \<and> direction atMax = Down \<and> lastResponse atMax \<noteq> None \<longrightarrow>
      currentLevel (newState (processResponse atMax cfgMax NotHeard)) = currentLevel atMax \<and>
      reversals (newState (processResponse atMax cfgMax NotHeard)) = reversals atMax + 1) \<and>
   (attempts atMin + 1 < maxAttempts cfgMin \<and> currentLevel atMin = minLevel cfgMin \<and>
    0 \<le> stepSizeDown cfgMin \<and> direction atMin = Up \<and> lastResponse atMin \<noteq> None \<longrightarrow>
      currentLevel (newState (processResponse atMin cfgMin Heard)) = currentLevel atMin \<and>
      reversals (newState (processResponse atMin cfgMin Heard)) = reversals atMin + 1)"
proof (intro conjI impI)
  assume go: "attempts state1 + 1 < maxAttempts config1"
  show "direction (newState (processResponse state1 config1 response1)) =
        (case response1 of Heard \<Rightarrow> Down | NotHeard \<Rightarrow> Up)"
    by (simp add: newState_go(3)[OF go] directionOf_def)
  show "reversals (newState (processResponse state1 config1 response1)) =
        reversals state1 +
        (if direction (newState (processResponse state1 config1 response1)) \<noteq> direction state1
            \<and> lastResponse state1 \<noteq> None
         then 1 else 0)"
    by (simp add: newState_go(3)[OF go] newState_go(5)[OF go])
next
  assume stop: "maxAttempts config2 \<le> attempts state2 + 1"
  show "direction (newState (processResponse state2 config2 response2)) = direction state2"
    by (simp add: processResponse_stop[OF stop])
  show "reversals (newState (processResponse state2 config2 response2)) = reversals state2"
    by (rule reversals_stop[OF stop])
next
  assume "createStaircase partial = (initial, cfg)"
  then show "reversals (advanceAll cfg initial (replicate n r)) = 0"
    by (rule identical_no_reversal)
next
  assume "createStaircase partial = (initial, cfg) \<and> 1 \<le> m \<and> int m + 1 < maxAttempts cfg"
  then show "reversals (advanceAll cfg initial (alternating r (Suc m))) =
        reversals (advanceAll cfg initial (alternating r m)) + 1"
    using alternating_reversal[of partial initial cfg m r] by simp
next
  assume h: "attempts atMax + 1 < maxAttempts cfgMax \<and> currentLevel atMax = maxLevel cfgMax \<and>
    0 \<le> stepSizeUp cfgMax \<and> direction atMax = Down \<and> lastResponse atMax \<noteq> None"
  then show "currentLevel (newState (processResponse atMax cfgMax NotHeard)) = currentLevel atMax"
    and "reversals (newState (processResponse atMax cfgMax NotHeard)) = reversals atMax + 1"
    using boundary_reversal_max[of atMax cfgMax] by simp_all
next
  assume h: "attempts atMin + 1 < maxAttempts cfgMin \<and>
    currentLevel atMin = minLevel cfgMin \<and>
    0 \<le> stepSizeDown cfgMin \<and> direction atMin = Up \<and> lastResponse atMin \<noteq> None"
  then show "currentLevel (newState (processResponse atMin cfgMin Heard)) =
      currentLevel atMin"
    and "reversals (newState (processResponse atMin cfgMin Heard)) = reversals atMin + 1"
    using boundary_reversal_min[of atMin cfgMin] by simp_all
qed

theorem reversal_counting_witness:
  "attempts \<lparr>currentLevel = -26, stepSize = 6, direction = Down, reversals = 0, attempts = 1,
      lastResponse = Some Heard, threshold = None\<rparr> + 1 < maxAttempts DEFAULT_CONFIG \<and>
   direction (newState (processResponse \<lparr>currentLevel = -26, stepSize = 6, direction = Down,
      reversals = 0, attempts = 1, lastResponse = Some Heard, threshold = None\<rparr>
      DEFAULT_CONFIG NotHeard)) = Up \<and>
   reversals (newState (processResponse \<lparr>currentLevel = -26, stepSize = 6, direction = Down,
      reversals = 0, attempts = 1, lastResponse = Some Heard, threshold = None\<rparr>
      DEFAULT_CONFIG NotHeard)) = 1 \<and>
   maxAttempts DEFAULT_CONFIG \<le>
     attempts \<lparr>currentLevel = -8, stepSize = 6, direction = Down, reversals = 2,
       attempts = 19, lastResponse = Some Heard, threshold = None\<rparr> + 1 \<and>
   direction (newState (processResponse \<lparr>currentLevel = -8, stepSize = 6, direction = Down,
      reversals = 2, attempts = 19, lastResponse = Some Heard, threshold = None\<rparr>
      DEFAULT_CONFIG NotHeard)) = Down \<and>
   reversals (newState (processResponse \<lparr>currentLevel = -8, stepSize = 6, direction = Down,
      reversals = 2, attempts = 19, lastResponse = Some Heard, threshold = None\<rparr>
      DEFAULT_CONFIG NotHeard)) = 2 \<and>
   createStaircase emptyConfig = (fst (createStaircase emptyConfig), DEFAULT_CONFIG) \<and>
   reversals (advanceAll DEFAULT_CONFIG (fst (createStaircase emptyConfig))
      (replicate 3 Heard)) = 0 \<and>
   (1::nat) \<le> 1 \<and> int 1 + 1 < maxAttempts DEFAULT_CONFIG \<and>
   reversals (advanceAll DEFAULT_CONFIG (fst (createStaircase emptyConfig))
      (alternating Heard (Suc 1))) =
     reversals (advanceAll DEFAULT_CONFIG (fst (createStaircase emptyConfig))
      (alternating Heard 1)) + 1 \<and>
   attempts \<lparr>currentLevel = 0, stepSize = 6, direction = Down, reversals = 0, attempts = 1,
      lastResponse = Some Heard, threshold = None\<rparr> + 1
     < maxAttempts (DEFAULT_CONFIG\<lparr>initialLevel := 0, minLevel := 0\<rparr>) \<and>
   currentLevel (newState (processResponse \<lparr>currentLevel = 0, stepSize = 6,
      direction = Down, reversals = 0, attempts = 1, lastResponse = Some Heard,
      threshold = None\<rparr> (DEFAULT_CONFIG\<lparr>initialLevel := 0, minLevel := 0\<rparr>) NotHeard)) = 0 \<and>
   reversals (newState (processResponse \<lparr>currentLevel = 0, stepSize = 6,
      direction = Down, reversals = 0, attempts = 1, lastResponse = Some Heard,
      threshold = None\<rparr> (DEFAULT_CONFIG\<lparr>initialLevel := 0, minLevel := 0\<rparr>) NotHeard)) = 1 \<and>
   attempts \<lparr>currentLevel = 0, stepSize = 3, direction = Up, reversals = 0, attempts = 1,
      lastResponse = Some NotHeard, threshold = None\<rparr> + 1
     < maxAttempts (DEFAULT_CONFIG\<lparr>initialLevel := 0, minLevel := 0\<rparr>) \<and>
   currentLevel (newState (processResponse \<lparr>currentLevel = 0, stepSize = 3,
      direction = Up, reversals = 0, attempts = 1, lastResponse = Some NotHeard,
      threshold = None\<rparr> (DEFAULT_CONFIG\<lparr>initialLevel := 0, minLevel := 0\<rparr>) Heard)) = 0 \<and>
   reversals (newState (processResponse \<lparr>currentLevel = 0, stepSize = 3,
      direction = Up, reversals = 0, attempts = 1, lastResponse = Some NotHeard,
      threshold = None\<rparr> (DEFAULT_CONFIG\<lparr>initialLevel := 0, minLevel := 0\<rparr>) Heard)) = 1"
proof -
  let ?go = "\<lparr>currentLevel = -26, stepSize = 6, direction = Down, reversals = 0,
      attempts = 1, lastResponse = Some Heard, threshold = None\<rparr>"
  let ?last = "\<lparr>currentLevel = -8, stepSize = 6, direction = Down, reversals = 2,
      attempts = 19, lastResponse = Some Heard, threshold = None\<rparr>"
  let ?flat = "DEFAULT_CONFIG\<lparr>initialLevel := 0, minLevel := 0\<rparr>"
  let ?hi = "\<lparr>currentLevel = 0, stepSize = 6, direction = Down, reversals = 0,
      attempts = 1, lastResponse = Some Heard, threshold = None\<rparr>"
  let ?lo = "\<lparr>currentLevel = 0, stepSize = 3, direction = Up, reversals = 0,
      attempts = 1, lastResponse = Some NotHeard, threshold = None\<rparr>"
  have m: "maxAttempts DEFAULT_CONFIG = 20" "maxAttempts ?flat = 20"
    "maxLevel ?flat = 0" "minLevel ?flat = 0" "stepSizeUp ?flat = 3" "stepSizeDown ?flat = 6"
    by (simp_all add: DEFAULT_CONFIG_def)
  have h1: "attempts ?go + 1 < maxAttempts DEFAULT_CONFIG" by (simp add: m)
  have h2: "maxAttempts DEFAULT_CONFIG \<le> attempts ?last + 1" by (simp add: m)
  have h3: "createStaircase emptyConfig = (fst (createStaircase emptyConfig), DEFAULT_CONFIG)"
    by (simp add: default_start)
  have h4: "(1::nat) \<le> 1 \<and> int 1 + 1 < maxAttempts DEFAULT_CONFIG" by (simp add: m)
  have h5: "attempts ?hi + 1 < maxAttempts ?flat \<and> currentLevel ?hi = maxLevel ?flat \<and>
      0 \<le> stepSizeUp ?flat \<and> direction ?hi = Down \<and> lastResponse ?hi \<noteq> None"
    by (simp add: m)
  have h6: "attempts ?lo + 1 < maxAttempts ?flat \<and> currentLevel ?lo = minLevel ?flat \<and>
      0 \<le> stepSizeDown ?flat \<and> direction ?lo = Up \<and> lastResponse ?lo \<noteq> None"
    by (simp add: m)
  from reversal_counting[where ?state1.0 = ?go and ?config1.0 = DEFAULT_CONFIG
      and ?response1.0 = NotHeard and ?state2.0 = ?last and ?config2.0 = DEFAULT_CONFIG
      and ?response2.0 = NotHeard and partial = emptyConfig
      and initial = "fst (createStaircase emptyConfig)" and cfg = DEFAULT_CONFIG
      and n = 3 and r = Heard and m = 1
      and atMax = ?hi and cfgMax = ?flat and atMin = ?lo and cfgMin = ?flat]
    h1 h2 h3 h4 h5 h6
  show ?thesis by simp
qed

text \<open>
  C3, as the spec words it, fails. With \<open>maxAttempts = 3\<close> and the other defaults, the
  alternating responses heard, not heard, heard run through three calls; the third is a
  call after the first, its response asks for the direction opposite to the one held, and
  there is a prior response, yet the \<open>maxAttempts\<close> check ends it before any reversal is
  counted: the count stays at 1.
\<close>

theorem alternating_reversal_counterexample:
  "alternating Heard 3 = [Heard, NotHeard, Heard] \<and>
   map shouldContinue
     (responseTrace (snd (createStaircase (emptyConfig\<lparr>maxAttempts_opt := Some 3\<rparr>)))
        (fst (createStaircase (emptyConfig\<lparr>maxAttempts_opt := Some 3\<rparr>)))
        (alternating Heard 3)) = [True, True, False] \<and>
   map (\<lambda>res. reversals (newState res))
     (responseTrace (snd (createStaircase (emptyConfig\<lparr>maxAttempts_opt := Some 3\<rparr>)))
        (fst (createStaircase (emptyConfig\<lparr>maxAttempts_opt := Some 3\<rparr>)))
        (alternating Heard 3)) = [0, 1, 1] \<and>
   \<not> reversals
       (advanceAll (snd (createStaircase (emptyConfig\<lparr>maxAttempts_opt := Some 3\<rparr>)))
          (fst (createStaircase (emptyConfig\<lparr>maxAttempts_opt := Some 3\<rparr>)))
          (alternating Heard 3)) =
     reversals
       (advanceAll (snd (createStaircase (emptyConfig\<lparr>maxAttempts_opt := Some 3\<rparr>)))
          (fst (createStaircase (emptyConfig\<lparr>maxAttempts_opt := Some 3\<rparr>)))
          (alternating Heard 2)) + 1"
  by code_simp

subsection \<open>Where a run ends\<close>









subsection \<open>The default run of twenty unheard tones\<close>

text \<open>
  C6. \<open>createStaircase()\<close> followed by twenty \<open>notHeard\<close> responses: the first nineteen
  calls return \<open>shouldContinue = true\<close> and no threshold, the twentieth returns
  \<open>shouldContinue = false\<close> and the threshold 0, which is \<open>maxLevel\<close>. The levels climb
  from -17 in steps of 3 to -2 and are then held at 0; none exceeds \<open>maxLevel\<close>. The run,
  driven until it is told to stop, stops at call 20.
\<close>

theorem twenty_notHeard_default:
  "maxLevel (snd (createStaircase emptyConfig)) = 0 \<and>
   map shouldContinue
     (responseTrace (snd (createStaircase emptyConfig)) (fst (createStaircase emptyConfig))
        (replicate 20 NotHeard)) = replicate 19 True @ [False] \<and>
   map resultThreshold
     (responseTrace (snd (createStaircase emptyConfig)) (fst (createStaircase emptyConfig))
        (replicate 20 NotHeard)) = replicate 19 None @ [Some 0] \<and>
   map (\<lambda>res. currentLevel (newState res))
     (responseTrace (snd (createStaircase emptyConfig)) (fst (createStaircase emptyConfig))
        (replicate 20 NotHeard)) =
     [-17, -14, -11, -8, -5, -2, 0, 0, 0, 0, 0, 0, 0, 0, 0, 0, 0, 0, 0, 0] \<and>
   callsUntilStop (snd (createStaircase emptyConfig)) (fst (createStaircase emptyConfig))
     (replicate 20 NotHeard) = Some 20"
  by code_simp

section \<open>Properties of the playback engine\<close>

text \<open>
  C7. The gain is \<open>0.3 * 10 powr (level / 20)\<close>: 0.3 at level 0, 0.03 at level -20 and
  0.0003 at level -60. Over the reals the three values are exact; the doubles that the
  engine computes are their roundings.
\<close>

theorem linearGain_values:
  "linearGain level = 0.3 * 10 powr (level / 20) \<and>
   linearGain 0 = 0.3 \<and> linearGain (-20) = 0.03 \<and> linearGain (-60) = 0.0003"
  by (simp add: linearGain_def referenceGain_def powr_neg_numeral)

subsection \<open>stopAll\<close>

lemma tryCatchIgnore_normal: "fst (tryCatchIgnore body g) = Normal"
  by (simp add: tryCatchIgnore_def split: prod.splits Completion.splits)

lemma forEach_normal:
  assumes "\<And>x h. fst (callback x h) = Normal"
  shows "fst (forEach callback xs g) = Normal"
proof (induction xs arbitrary: g)
  case Nil
  then show ?case by simp
next
  case (Cons x xs)
  obtain c g' where step: "callback x g = (c, g')" by (cases "callback x g")
  with assms[of x g] have "c = Normal" by simp
  with step Cons.IH[of g'] show ?case by simp
qed

lemma stop_callback_graph:
  "stopOscillator osc g =
     (Normal, if oscillators g osc = Playing
              then g\<lparr>oscillators := (oscillators g)(osc := Finished)\<rparr> else g)"
  by (simp add: stopOscillator_def tryCatchIgnore_def oscillatorStop_def
      split: OscillatorStatus.splits)

lemma forEach_stop_graph:
  "forEach stopOscillator xs g =
     (Normal, g\<lparr>oscillators :=
        (\<lambda>n. if n \<in> set xs \<and> oscillators g n = Playing then Finished else oscillators g n)\<rparr>)"
proof (induction xs arbitrary: g)
  case Nil
  then show ?case by simp
next
  case (Cons x xs)
  define g1 where "g1 = (if oscillators g x = Playing
      then g\<lparr>oscillators := (oscillators g)(x := Finished)\<rparr> else g)"
  have step: "stopOscillator x g = (Normal, g1)"
    unfolding g1_def by (rule stop_callback_graph)
  have "forEach stopOscillator (x # xs) g = forEach stopOscillator xs g1"
    by (simp only: forEach.simps step prod.case Completion.case)
  also have "\<dots> = (Normal, g1\<lparr>oscillators :=
        (\<lambda>n. if n \<in> set xs \<and> oscillators g1 n = Playing then Finished
              else oscillators g1 n)\<rparr>)"
    by (rule Cons.IH)
  also have "g1\<lparr>oscillators :=
        (\<lambda>n. if n \<in> set xs \<and> oscillators g1 n = Playing then Finished
              else oscillators g1 n)\<rparr> =
      g\<lparr>oscillators :=
        (\<lambda>n. if n \<in> set (x # xs) \<and> oscillators g n = Playing then Finished
              else oscillators g n)\<rparr>"
    by (auto simp add: g1_def fun_eq_iff)
  finally show ?case .
qed

lemma silenceGain_ok:
  assumes "0 \<le> currentTime c"
  shows "silenceGain (Some c) gain g =
     (Normal, g\<lparr>gains := (gains g)(gain := silenced (currentTime c) (gains g gain))\<rparr>)"
  using assms
  by (simp add: silenceGain_def tryCatchIgnore_def andThen_def withCurrentTime_def
      cancelScheduledValues_def setValueAtTime_def silenced_def)

lemma silenced_twice: "silenced t (silenced t p) = silenced t p"
  by (simp add: silenced_def)

lemma forEach_silence_graph:
  assumes "0 \<le> currentTime c"
  shows "forEach (silenceGain (Some c)) xs g =
     (Normal, g\<lparr>gains :=
        (\<lambda>n. if n \<in> set xs then silenced (currentTime c) (gains g n) else gains g n)\<rparr>)"
proof (induction xs arbitrary: g)
  case Nil
  then show ?case by simp
next
  case (Cons x xs)
  define g1 where
    "g1 = g\<lparr>gains := (gains g)(x := silenced (currentTime c) (gains g x))\<rparr>"
  have step: "silenceGain (Some c) x g = (Normal, g1)"
    unfolding g1_def by (rule silenceGain_ok[OF assms])
  have "forEach (silenceGain (Some c)) (x # xs) g = forEach (silenceGain (Some c)) xs g1"
    by (simp only: forEach.simps step prod.case Completion.case)
  also have "\<dots> = (Normal, g1\<lparr>gains :=
        (\<lambda>n. if n \<in> set xs then silenced (currentTime c) (gains g1 n) else gains g1 n)\<rparr>)"
    by (rule Cons.IH)
  also have "g1\<lparr>gains :=
        (\<lambda>n. if n \<in> set xs then silenced (currentTime c) (gains g1 n) else gains g1 n)\<rparr> =
      g\<lparr>gains :=
        (\<lambda>n. if n \<in> set (x # xs) then silenced (currentTime c) (gains g n)
              else gains g n)\<rparr>"
    by (auto simp add: g1_def fun_eq_iff silenced_twice)
  finally show ?case .
qed

lemma stopAll_result:
  "stopAll this g =
     (Normal, this\<lparr>activeOscillators := [], activeGainNodes := []\<rparr>,
      snd (forEach (silenceGain (audioContext this)) (activeGainNodes this)
        (snd (forEach stopOscillator (activeOscillators this) g))))"
proof -
  have a: "fst (forEach stopOscillator (activeOscillators this) g)
             = Normal"
    by (rule forEach_normal) (simp add: stopOscillator_def tryCatchIgnore_normal)
  have b: "fst (forEach (silenceGain (audioContext this)) (activeGainNodes this) h) = Normal" for h
    by (rule forEach_normal) (simp add: silenceGain_def tryCatchIgnore_normal)
  obtain g1 where g1: "forEach stopOscillator
      (activeOscillators this) g = (Normal, g1)"
    using a by (cases "forEach stopOscillator
      (activeOscillators this) g") simp
  obtain g2 where g2: "forEach (silenceGain (audioContext this)) (activeGainNodes this) g1
      = (Normal, g2)"
    using b[of g1] by (cases "forEach (silenceGain (audioContext this))
      (activeGainNodes this) g1") simp
  show ?thesis by (simp add: stopAll_def g1 g2)
qed

lemma silenceGain_oscillators:
  "oscillators (snd (silenceGain ctx gain g)) = oscillators g"
  by (cases ctx)
    (simp_all add: silenceGain_def tryCatchIgnore_def andThen_def withCurrentTime_def
      cancelScheduledValues_def setValueAtTime_def)

lemma forEach_silence_oscillators:
  "oscillators (snd (forEach (silenceGain ctx) xs g)) = oscillators g"
proof (induction xs arbitrary: g)
  case Nil
  then show ?case by simp
next
  case (Cons x xs)
  have n: "fst (silenceGain ctx x g) = Normal"
    by (simp add: silenceGain_def tryCatchIgnore_normal)
  then obtain g' where s: "silenceGain ctx x g = (Normal, g')"
    by (cases "silenceGain ctx x g") simp
  have "oscillators g' = oscillators g" using silenceGain_oscillators[of ctx x g] s by simp
  then show ?case using Cons.IH[of g'] s by simp
qed

text \<open>
  C8. \<open>stopAll\<close> always completes normally, whatever the nodes do. Afterwards both lists
  are empty and the other fields of the engine are as before; no oscillator that was in
  the active list is still playing, whether its \<open>stop()\<close> went through or threw because the
  node had already finished; and, when the engine has a context, every gain node that was
  in the active list has lost its schedule from the current time on and has the value 0
  set at the current time. With both lists empty, the engine and the graph are unchanged.
\<close>

theorem stopAll_total:
  "fst (stopAll this g) = Normal \<and>
   fst (snd (stopAll this g)) = this\<lparr>activeOscillators := [], activeGainNodes := []\<rparr> \<and>
   activeOscillators (fst (snd (stopAll this g))) = [] \<and>
   activeGainNodes (fst (snd (stopAll this g))) = [] \<and>
   (\<forall>osc \<in> set (activeOscillators this).
      oscillators (snd (snd (stopAll this g))) osc \<noteq> Playing) \<and>
   (audioContext this = Some ctx \<and> 0 \<le> currentTime ctx \<longrightarrow>
     (\<forall>gain \<in> set (activeGainNodes this).
        events (gains (snd (snd (stopAll this g))) gain) =
          filter (\<lambda>e. fst e < currentTime ctx) (events (gains g gain)) @
            [(currentTime ctx, SetValue 0)])) \<and>
   (activeOscillators idle = [] \<and> activeGainNodes idle = [] \<longrightarrow>
      stopAll idle h = (Normal, idle, h))"
proof (intro conjI impI ballI)
  show "fst (stopAll this g) = Normal" by (simp add: stopAll_result)
  show "fst (snd (stopAll this g)) = this\<lparr>activeOscillators := [], activeGainNodes := []\<rparr>"
    by (simp add: stopAll_result)
  show "activeOscillators (fst (snd (stopAll this g))) = []" by (simp add: stopAll_result)
  show "activeGainNodes (fst (snd (stopAll this g))) = []" by (simp add: stopAll_result)
next
  fix osc assume "osc \<in> set (activeOscillators this)"
  then show "oscillators (snd (snd (stopAll this g))) osc \<noteq> Playing"
    by (simp add: stopAll_result forEach_silence_oscillators forEach_stop_graph)
next
  fix gain
  assume c: "audioContext this = Some ctx \<and> 0 \<le> currentTime ctx"
    and m: "gain \<in> set (activeGainNodes this)"
  from c have t: "0 \<le> currentTime ctx" by simp
  from c m show "events (gains (snd (snd (stopAll this g))) gain) =
          filter (\<lambda>e. fst e < currentTime ctx) (events (gains g gain)) @
            [(currentTime ctx, SetValue 0)]"
    by (simp add: stopAll_result forEach_silence_graph[OF t] forEach_stop_graph silenced_def)
next
  assume "activeOscillators idle = [] \<and> activeGainNodes idle = []"
  then show "stopAll idle h = (Normal, idle, h)"
    by (simp add: stopAll_result)
qed

theorem stopAll_total_witness:
  "fst (stopAll twoTones twoTonesGraph) = Normal \<and>
   activeOscillators (fst (snd (stopAll twoTones twoTonesGraph))) = [] \<and>
   activeGainNodes (fst (snd (stopAll twoTones twoTonesGraph))) = [] \<and>
   1 \<in> set (activeOscillators twoTones) \<and> 2 \<in> set (activeOscillators twoTones) \<and>
   oscillators twoTonesGraph 1 = Playing \<and> oscillators twoTonesGraph 2 = Finished \<and>
   oscillators (snd (snd (stopAll twoTones twoTonesGraph))) 1 \<noteq> Playing \<and>
   oscillators (snd (snd (stopAll twoTones twoTonesGraph))) 2 \<noteq> Playing \<and>
   audioContext twoTones = Some \<lparr>currentTime = 2\<rparr> \<and>
   (0::real) \<le> currentTime \<lparr>currentTime = 2\<rparr> \<and>
   11 \<in> set (activeGainNodes twoTones) \<and>
   events (gains (snd (snd (stopAll twoTones twoTonesGraph))) 11) =
     [(1.5, SetValue 0), (1.51, LinearRamp 1), (2, SetValue 0)] \<and>
   activeOscillators noTones = [] \<and> activeGainNodes noTones = [] \<and>
   stopAll noTones twoTonesGraph = (Normal, noTones, twoTonesGraph)"
proof -
  have l: "activeOscillators twoTones = [1, 2]" "activeGainNodes twoTones = [11, 12]"
    "audioContext twoTones = Some \<lparr>currentTime = 2\<rparr>"
    by (simp_all add: twoTones_def)
  have i: "activeOscillators noTones = [] \<and> activeGainNodes noTones = []"
    by (simp add: noTones_def)
  have o: "oscillators twoTonesGraph 1 = Playing" "oscillators twoTonesGraph 2 = Finished"
    by (simp_all add: twoTonesGraph_def)
  have e: "events (gains twoTonesGraph 11) =
      [(1.5, SetValue 0), (1.51, LinearRamp 1), (2.45, SetValue 1), (2.5, LinearRamp 0)]"
    by (simp add: twoTonesGraph_def)
  note t = stopAll_total[where this = twoTones and g = twoTonesGraph
      and ctx = "\<lparr>currentTime = 2\<rparr>" and idle = noTones and h = twoTonesGraph]
  from t l have p: "oscillators (snd (snd (stopAll twoTones twoTonesGraph))) 1 \<noteq> Playing"
    "oscillators (snd (snd (stopAll twoTones twoTonesGraph))) 2 \<noteq> Playing"
    by simp_all
  from t l have "events (gains (snd (snd (stopAll twoTones twoTonesGraph))) 11) =
      filter (\<lambda>e. fst e < 2) (events (gains twoTonesGraph 11)) @ [(2, SetValue 0)]"
    by simp
  then have q: "events (gains (snd (snd (stopAll twoTones twoTonesGraph))) 11) =
      [(1.5, SetValue 0), (1.51, LinearRamp 1), (2, SetValue 0)]"
    by (simp add: e)
  from t i have r: "stopAll noTones twoTonesGraph = (Normal, noTones, twoTonesGraph)"
    by simp
  from t have s: "fst (stopAll twoTones twoTonesGraph) = Normal"
    "activeOscillators (fst (snd (stopAll twoTones twoTonesGraph))) = []"
    "activeGainNodes (fst (snd (stopAll twoTones twoTonesGraph))) = []"
    by simp_all
  from s p q r l i o show ?thesis by simp
qed

end
